theory Spec2Isabelle
  imports Main "HOL-Library.Sublist"
begin

section \<open>InsurancePro: the campaign send pipeline of app.py\<close>

text \<open>
  A shallow embedding of the parts of \<^verbatim>\<open>src/app.py\<close> that subscribe and
  unsubscribe visitors and that send a campaign: the two tables the routes work on, the mail
  transport, the email templates and the routes themselves.

  Python strings are modelled as byte strings (UTF-8): \<open>string\<close> is a list of 8-bit
  characters. Python integers are \<open>int\<close>. A nullable column is an \<open>option\<close>.
  What Python prints to standard output is not modelled.
\<close>

subsection \<open>Database models\<close>

text \<open>
  \<^verbatim>\<open>class Subscriber(db.Model)\<close>. Only \<open>id\<close> (primary key) and \<open>email\<close>
  (\<^verbatim>\<open>nullable=False\<close>) cannot be NULL. The field \<open>id\<close> is named \<open>sub_id\<close>.
  Times are seconds on the UTC clock.
\<close>

record subscriber =
  sub_id :: int
  email :: string
  name :: "string option"
  phone :: "string option"
  insurance_type :: "string option"
  status :: "string option"
  subscribed_at :: "int option"
  last_campaign_sent :: "int option"

text \<open>
  \<^verbatim>\<open>class Campaign(db.Model)\<close>. The fields \<open>id\<close>, \<open>name\<close> and \<open>status\<close> are
  named \<open>camp_id\<close>, \<open>camp_name\<close> and \<open>camp_status\<close>, since a subscriber has fields
  of the same names.
\<close>

record campaign =
  camp_id :: int
  camp_name :: string
  subject :: string
  content :: string
  template_type :: "string option"
  camp_status :: "string option"
  target_segment :: "string option"
  created_at :: "int option"
  sent_at :: "int option"
  total_recipients :: "int option"
  sent_count :: "int option"
  failed_count :: "int option"
  opened_count :: "int option"

subsection \<open>Email templates\<close>

text \<open>
  \<^verbatim>\<open>get_email_template\<close> holds three f-strings. Each has two replacement fields,
  \<^verbatim>\<open>{content}\<close> and \<^verbatim>\<open>{unsubscribe_link}\<close>, so each is three literal pieces, written
  here line by line as in the source (\<^verbatim>\<open>{{\<close> and \<^verbatim>\<open>}}\<close> of the f-string are the
  braces they stand for; bytes outside ASCII are given by their codes).
\<close>

definition default_1 :: string where
  \<open>default_1 =
    ''\<newline>'' @
    ''        <!DOCTYPE html>\<newline>'' @
    ''        <html>\<newline>'' @
    ''        <head>\<newline>'' @
    ''            <meta charset="UTF-8">\<newline>'' @
    ''            <meta name="viewport" content="width=device-width, initial-scale=1.0">\<newline>'' @
    ''            <style>\<newline>'' @
    ''                body { font-family: 'Segoe UI', Tahoma, Geneva, Verdana, sans-serif; margin: 0; padding: 0; background-color: #f4f4f4; }\<newline>'' @
    ''                .container { max-width: 600px; margin: 0 auto; background-color: #ffffff; }\<newline>'' @
    ''                .header { background: linear-gradient(135deg, #1e3c72 0%, #2a5298 100%); padding: 30px; text-align: center; }\<newline>'' @
    ''                .header h1 { color: #ffffff; margin: 0; font-size: 24px; }\<newline>'' @
    ''                .content { padding: 30px; line-height: 1.6; color: #333333; }\<newline>'' @
    ''                .footer { background-color: #f8f9fa; padding: 20px; text-align: center; font-size: 12px; color: #666666; }\<newline>'' @
    ''                .footer a { color: #2a5298; }\<newline>'' @
    ''                .button { display: inline-block; padding: 12px 24px; background: linear-gradient(135deg, #1e3c72 0%, #2a5298 100%); color: #ffffff; text-decoration: none; border-radius: 5px; margin: 10px 0; }\<newline>'' @
    ''            </style>\<newline>'' @
    ''        </head>\<newline>'' @
    ''        <body>\<newline>'' @
    ''            <div class="container">\<newline>'' @
    ''                <div class="header">\<newline>'' @
    ''                    <h1>InsurancePro</h1>\<newline>'' @
    ''                </div>\<newline>'' @
    ''                <div class="content">\<newline>'' @
    ''                    ''\<close>

definition default_2 :: string where
  \<open>default_2 =
    ''\<newline>'' @
    ''                </div>\<newline>'' @
    ''                <div class="footer">\<newline>'' @
    ''                    <p>'' @ [CHR 0xC3, CHR 0x82, CHR 0xC2, CHR 0xA9] @ '' 2026 InsurancePro. All rights reserved.</p>\<newline>'' @
    ''                    <p>If you no longer wish to receive emails, <a href="''\<close>

definition default_3 :: string where
  \<open>default_3 =
    ''">unsubscribe here</a>.</p>\<newline>'' @
    ''                </div>\<newline>'' @
    ''            </div>\<newline>'' @
    ''        </body>\<newline>'' @
    ''        </html>\<newline>'' @
    ''        ''\<close>

definition promotional_1 :: string where
  \<open>promotional_1 =
    ''\<newline>'' @
    ''        <!DOCTYPE html>\<newline>'' @
    ''        <html>\<newline>'' @
    ''        <head>\<newline>'' @
    ''            <meta charset="UTF-8">\<newline>'' @
    ''            <meta name="viewport" content="width=device-width, initial-scale=1.0">\<newline>'' @
    ''            <style>\<newline>'' @
    ''                body { font-family: 'Arial', sans-serif; margin: 0; padding: 0; background-color: #f4f4f4; }\<newline>'' @
    ''                .container { max-width: 600px; margin: 0 auto; background-color: #ffffff; border-radius: 10px; overflow: hidden; box-shadow: 0 4px 6px rgba(0,0,0,0.1); }\<newline>'' @
    ''                .header { background: linear-gradient(135deg, #ff6b6b 0%, #ee5a24 100%); padding: 40px; text-align: center; }\<newline>'' @
    ''                .header h1 { color: #ffffff; margin: 0; font-size: 28px; }\<newline>'' @
    ''                .content { padding: 40px; line-height: 1.8; color: #333333; }\<newline>'' @
    ''                .highlight { background-color: #fff3cd; padding: 15px; border-left: 4px solid #ffc107; margin: 20px 0; }\<newline>'' @
    ''                .footer { background-color: #343a40; padding: 20px; text-align: center; font-size: 12px; color: #ffffff; }\<newline>'' @
    ''                .footer a { color: #ffc107; }\<newline>'' @
    ''                .cta-button { display: inline-block; padding: 15px 30px; background: linear-gradient(135deg, #ff6b6b 0%, #ee5a24 100%); color: #ffffff; text-decoration: none; border-radius: 25px; font-weight: bold; margin: 15px 0; }\<newline>'' @
    ''            </style>\<newline>'' @
    ''        </head>\<newline>'' @
    ''        <body>\<newline>'' @
    ''            <div class="container">\<newline>'' @
    ''                <div class="header">\<newline>'' @
    ''                    <h1>'' @ [CHR 0xC3, CHR 0xB0, CHR 0xC5, CHR 0xB8, CHR 0xC5, CHR 0xBD, CHR 0xE2, CHR 0x80, CHR 0xB0] @ '' Special Offer!</h1>\<newline>'' @
    ''                </div>\<newline>'' @
    ''                <div class="content">\<newline>'' @
    ''                    ''\<close>

definition promotional_2 :: string where
  \<open>promotional_2 =
    ''\<newline>'' @
    ''                </div>\<newline>'' @
    ''                <div class="footer">\<newline>'' @
    ''                    <p>'' @ [CHR 0xC3, CHR 0x82, CHR 0xC2, CHR 0xA9] @ '' 2026 InsurancePro. All rights reserved.</p>\<newline>'' @
    ''                    <p><a href="''\<close>

definition promotional_3 :: string where
  \<open>promotional_3 =
    ''">Unsubscribe</a> from promotional emails</p>\<newline>'' @
    ''                </div>\<newline>'' @
    ''            </div>\<newline>'' @
    ''        </body>\<newline>'' @
    ''        </html>\<newline>'' @
    ''        ''\<close>

definition newsletter_1 :: string where
  \<open>newsletter_1 =
    ''\<newline>'' @
    ''        <!DOCTYPE html>\<newline>'' @
    ''        <html>\<newline>'' @
    ''        <head>\<newline>'' @
    ''            <meta charset="UTF-8">\<newline>'' @
    ''            <meta name="viewport" content="width=device-width, initial-scale=1.0">\<newline>'' @
    ''            <style>\<newline>'' @
    ''                body { font-family: 'Georgia', serif; margin: 0; padding: 0; background-color: #f9f9f9; }\<newline>'' @
    ''                .container { max-width: 600px; margin: 0 auto; background-color: #ffffff; }\<newline>'' @
    ''                .header { background-color: #2c3e50; padding: 25px; text-align: center; }\<newline>'' @
    ''                .header h1 { color: #ecf0f1; margin: 0; font-size: 26px; font-weight: normal; }\<newline>'' @
    ''                .content { padding: 35px; line-height: 1.7; color: #2c3e50; }\<newline>'' @
    ''                .article { margin-bottom: 25px; padding-bottom: 25px; border-bottom: 1px solid #ecf0f1; }\<newline>'' @
    ''                .article:last-child { border-bottom: none; }\<newline>'' @
    ''                .footer { background-color: #ecf0f1; padding: 20px; text-align: center; font-size: 11px; color: #7f8c8d; }\<newline>'' @
    ''                .footer a { color: #2c3e50; }\<newline>'' @
    ''            </style>\<newline>'' @
    ''        </head>\<newline>'' @
    ''        <body>\<newline>'' @
    ''            <div class="container">\<newline>'' @
    ''                <div class="header">\<newline>'' @
    ''                    <h1>InsurancePro Newsletter</h1>\<newline>'' @
    ''                </div>\<newline>'' @
    ''                <div class="content">\<newline>'' @
    ''                    ''\<close>

definition newsletter_2 :: string where
  \<open>newsletter_2 =
    ''\<newline>'' @
    ''                </div>\<newline>'' @
    ''                <div class="footer">\<newline>'' @
    ''                    <p>'' @ [CHR 0xC3, CHR 0x82, CHR 0xC2, CHR 0xA9] @ '' 2026 InsurancePro. Stay informed, stay protected.</p>\<newline>'' @
    ''                    <p><a href="''\<close>

definition newsletter_3 :: string where
  \<open>newsletter_3 =
    ''">Manage subscription preferences</a></p>\<newline>'' @
    ''                </div>\<newline>'' @
    ''            </div>\<newline>'' @
    ''        </body>\<newline>'' @
    ''        </html>\<newline>'' @
    ''        ''\<close>

text \<open>
  The dictionary \<^verbatim>\<open>templates\<close>, keyed by the three variant names, and
  \<^verbatim>\<open>templates.get(template_type, templates['default'])\<close>. The column
  \<open>template_type\<close> is nullable: \<open>None\<close> is not a key. The parameters
  \<^verbatim>\<open>template_type\<close> and \<^verbatim>\<open>content\<close> are named \<open>variant\<close> and \<open>body\<close> (the
  campaign's fields have their names).
\<close>

definition templates :: "string \<Rightarrow> string \<Rightarrow> string \<rightharpoonup> string" where
  "templates body unsubscribe_link =
     [''default'' \<mapsto> default_1 @ body @ default_2 @ unsubscribe_link @ default_3,
      ''promotional'' \<mapsto> promotional_1 @ body @ promotional_2 @ unsubscribe_link @ promotional_3,
      ''newsletter'' \<mapsto> newsletter_1 @ body @ newsletter_2 @ unsubscribe_link @ newsletter_3]"

definition get_email_template :: "string option \<Rightarrow> string \<Rightarrow> string \<Rightarrow> string" where
  "get_email_template variant body unsubscribe_token =
     (let unsubscribe_link = ''http://localhost:5000/unsubscribe/'' @ unsubscribe_token;
          dict = templates body unsubscribe_link
      in case variant of
           None \<Rightarrow> the (dict ''default'')
         | Some k \<Rightarrow> (case dict k of Some doc \<Rightarrow> doc | None \<Rightarrow> the (dict ''default'')))"

subsection \<open>The process: configuration, collaborators and state\<close>

text \<open>
  Exceptions are values. \<open>EmailNotValidError\<close> is the one \<^verbatim>\<open>validate_email_address\<close>
  catches by name; \<open>InvalidToken\<close> and \<open>ExpiredToken\<close> are the two failures of the token
  codec; \<open>Exception\<close> stands for any other exception, with its text.
\<close>

datatype exn = EmailNotValidError | InvalidToken | ExpiredToken | Exception string

text \<open>
  What \<^verbatim>\<open>send_email\<close> hands to \<^verbatim>\<open>smtplib\<close>: the MIME message (its three headers and
  the attached parts, each a subtype and a payload, in the order attached) and the
  connection it is sent on (\<^verbatim>\<open>smtplib.SMTP(SMTP_SERVER, SMTP_PORT)\<close>, then
  \<^verbatim>\<open>login(SMTP_USERNAME, SMTP_PASSWORD)\<close>).
\<close>

record mime =
  msg_subject :: string
  msg_from :: string
  msg_to :: string
  msg_parts :: "(string \<times> string) list"

record connection =
  conn_host :: string
  conn_port :: int
  conn_user :: string
  conn_password :: string
  conn_message :: mime

text \<open>
  The module's globals and the libraries it calls. The libraries are not part of the
  repository, so each is a parameter:
  \<^item> \<open>clock\<close>: the value of the \<open>n\<close>-th reading of the system clock;
  \<^item> \<open>validate_email\<close> (email_validator): the normalised address, or the exception;
  \<open>validate_email_address\<close> below throws the normalised address away;
  \<^item> \<open>smtp\<close> (smtplib): what happens on a connection, given the connections made before:
  \<open>None\<close> when \<^verbatim>\<open>starttls\<close>, \<^verbatim>\<open>login\<close> and \<^verbatim>\<open>send_message\<close> all return, the
  exception otherwise;
  \<^item> \<open>dumps\<close> and \<open>loads\<close> (the \<^verbatim>\<open>URLSafeTimedSerializer\<close> built from the secret key):
  \<open>dumps obj salt now\<close> and \<open>loads token salt max_age now\<close>, the time they read from the
  clock made an argument. A token is opaque to the application, which only moves it from
  \<open>dumps\<close> into a link and from a URL into \<open>loads\<close>: its type is the parameter \<open>'tok\<close>, and
  \<open>tok_str\<close> is its text in a URL.
\<close>

record 'tok env =
  SMTP_SERVER :: string
  SMTP_PORT :: int
  SMTP_USERNAME :: string
  SMTP_PASSWORD :: string
  FROM_EMAIL :: string
  clock :: "nat \<Rightarrow> int"
  validate_email :: "string \<Rightarrow> exn + string"
  smtp :: "connection list \<Rightarrow> connection \<Rightarrow> exn option"
  dumps :: "string \<Rightarrow> string \<Rightarrow> int \<Rightarrow> exn + 'tok"
  loads :: "'tok \<Rightarrow> string \<Rightarrow> int \<Rightarrow> int \<Rightarrow> exn + string"
  tok_str :: "'tok \<Rightarrow> string"

text \<open>
  The state the routes read and write: the two tables (rows in the order of insertion),
  the number of clock readings so far, and the connections opened to the mail relay so
  far (oldest first).
\<close>

record state =
  subscribers :: "subscriber list"
  campaigns :: "campaign list"
  ticks :: nat
  wire :: "connection list"

definition read_clock :: "'tok env \<Rightarrow> state \<Rightarrow> int \<times> state" where
  "read_clock env st = (clock env (ticks st), st\<lparr>ticks := Suc (ticks st)\<rparr>)"

text \<open>\<^verbatim>\<open>datetime.utcnow()\<close>.\<close>

definition utcnow :: "'tok env \<Rightarrow> state \<Rightarrow> int \<times> state" where
  "utcnow env st = read_clock env st"

subsection \<open>Email functions\<close>

definition validate_email_address :: "'tok env \<Rightarrow> string \<Rightarrow> bool" where
  "validate_email_address env addr =
     (case validate_email env addr of
        Inr normalized \<Rightarrow> True
      | Inl e \<Rightarrow> False)"

text \<open>
  \<^verbatim>\<open>send_email(to_email, subject, html_content, text_content=None)\<close>. The guard
  \<^verbatim>\<open>not all([SMTP_USERNAME, SMTP_PASSWORD])\<close> returns before the \<^verbatim>\<open>try\<close>; inside it
  every exception of the connection is caught and becomes \<open>False\<close>.
\<close>

definition send_email ::
  "'tok env \<Rightarrow> string \<Rightarrow> string \<Rightarrow> string \<Rightarrow> string option \<Rightarrow> state \<Rightarrow> bool \<times> state" where
  "send_email env to_email subj html_content text_content st =
     (if \<not> list_all (\<lambda>s. s \<noteq> []) [SMTP_USERNAME env, SMTP_PASSWORD env] then (False, st)
      else
        let msg = \<lparr>msg_subject = subj, msg_from = FROM_EMAIL env, msg_to = to_email,
                   msg_parts =
                     (case text_content of
                        None \<Rightarrow> []
                      | Some t \<Rightarrow> if t \<noteq> [] then [(''plain'', t)] else [])
                     @ [(''html'', html_content)]\<rparr>;
            conn = \<lparr>conn_host = SMTP_SERVER env, conn_port = SMTP_PORT env,
                    conn_user = SMTP_USERNAME env, conn_password = SMTP_PASSWORD env,
                    conn_message = msg\<rparr>;
            st' = st\<lparr>wire := wire st @ [conn]\<rparr>
        in case smtp env (wire st) conn of
             None \<Rightarrow> (True, st')
           | Some e \<Rightarrow> (False, st'))"

subsection \<open>Queries and updates\<close>

text \<open>\<^verbatim>\<open>.first()\<close> of a query: the first row, or \<open>None\<close>.\<close>

definition first :: "'a list \<Rightarrow> 'a option" where
  "first rows = (case rows of [] \<Rightarrow> None | r # _ \<Rightarrow> Some r)"

text \<open>\<^verbatim>\<open>Subscriber.query.filter_by(email=email)\<close>: string equality, exact in every byte.\<close>

definition filter_by_email :: "string \<Rightarrow> subscriber list \<Rightarrow> subscriber list" where
  "filter_by_email addr rows = filter (\<lambda>r. email r = addr) rows"

text \<open>\<^verbatim>\<open>Campaign.query.get(campaign_id)\<close>; \<^verbatim>\<open>get_or_404\<close> aborts on \<open>None\<close>.\<close>

definition get_campaign :: "int \<Rightarrow> state \<Rightarrow> campaign option" where
  "get_campaign campaign_id st = first (filter (\<lambda>c. camp_id c = campaign_id) (campaigns st))"

text \<open>
  An attribute assignment on a loaded row is written back by the next commit as
  \<^verbatim>\<open>UPDATE ... SET ... WHERE id = ?\<close>; \<^verbatim>\<open>db.session.delete\<close> as
  \<^verbatim>\<open>DELETE ... WHERE id = ?\<close>.
\<close>

definition update_subscriber :: "int \<Rightarrow> (subscriber \<Rightarrow> subscriber) \<Rightarrow> state \<Rightarrow> state" where
  "update_subscriber i f st =
     st\<lparr>subscribers := map (\<lambda>r. if sub_id r = i then f r else r) (subscribers st)\<rparr>"

definition update_campaign :: "int \<Rightarrow> (campaign \<Rightarrow> campaign) \<Rightarrow> state \<Rightarrow> state" where
  "update_campaign i f st =
     st\<lparr>campaigns := map (\<lambda>c. if camp_id c = i then f c else c) (campaigns st)\<rparr>"

text \<open>The next value of an integer primary key: one more than the largest, 1 in an empty table.\<close>

definition next_id :: "int list \<Rightarrow> int" where
  "next_id ids = fold max ids 0 + 1"

subsection \<open>Requests and responses\<close>

record request =
  form :: "string \<rightharpoonup> string"
  headers :: "string \<rightharpoonup> string"
  referrer :: "string option"

type_synonym session = "string \<rightharpoonup> int"

text \<open>
  \<open>Json\<close> is \<^verbatim>\<open>jsonify({'success': ..., 'message': ...})\<close>, \<open>Json_tally\<close> the same with
  the keys \<^verbatim>\<open>sent\<close> and \<^verbatim>\<open>failed\<close>; \<open>Redirect\<close> is one \<^verbatim>\<open>flash(message, category)\<close>
  followed by \<^verbatim>\<open>redirect(target)\<close>; \<open>Abort404\<close> is what \<^verbatim>\<open>get_or_404\<close> raises.
\<close>

datatype response =
    Json bool string
  | Json_tally bool string int int
  | Redirect string string string
  | Abort404

text \<open>\<^verbatim>\<open>dict.get(key, default)\<close>.\<close>

definition get_default :: "(string \<rightharpoonup> string) \<Rightarrow> string \<Rightarrow> string \<Rightarrow> string" where
  "get_default d k dflt = (case d k of Some v \<Rightarrow> v | None \<Rightarrow> dflt)"

text \<open>
  \<^verbatim>\<open>str.strip()\<close> removes the leading and the trailing whitespace characters: the code
  points for which \<^verbatim>\<open>str.isspace()\<close> holds, which are U+0009 to U+000D, U+001C to
  U+0020, U+0085, U+00A0, U+1680, U+2000 to U+200A, U+2028, U+2029, U+202F, U+205F and
  U+3000. A form value is text, so its bytes are valid UTF-8, where each of these code
  points is one of the byte sequences of \<open>whitespace\<close>, and such a sequence at either
  end of the string is a whole character.
\<close>

definition whitespace :: "string list" where
  "whitespace =
     [[CHR 0x09], [CHR 0x0A], [CHR 0x0B], [CHR 0x0C], [CHR 0x0D], [CHR 0x1C], [CHR 0x1D],
      [CHR 0x1E], [CHR 0x1F], [CHR 0x20], [CHR 0xC2, CHR 0x85], [CHR 0xC2, CHR 0xA0],
      [CHR 0xE1, CHR 0x9A, CHR 0x80], [CHR 0xE2, CHR 0x80, CHR 0x80],
      [CHR 0xE2, CHR 0x80, CHR 0x81], [CHR 0xE2, CHR 0x80, CHR 0x82],
      [CHR 0xE2, CHR 0x80, CHR 0x83], [CHR 0xE2, CHR 0x80, CHR 0x84],
      [CHR 0xE2, CHR 0x80, CHR 0x85], [CHR 0xE2, CHR 0x80, CHR 0x86],
      [CHR 0xE2, CHR 0x80, CHR 0x87], [CHR 0xE2, CHR 0x80, CHR 0x88],
      [CHR 0xE2, CHR 0x80, CHR 0x89], [CHR 0xE2, CHR 0x80, CHR 0x8A],
      [CHR 0xE2, CHR 0x80, CHR 0xA8], [CHR 0xE2, CHR 0x80, CHR 0xA9],
      [CHR 0xE2, CHR 0x80, CHR 0xAF], [CHR 0xE2, CHR 0x81, CHR 0x9F],
      [CHR 0xE3, CHR 0x80, CHR 0x80]]"

text \<open>Removing, from the front, every leading occurrence of one of the sequences \<open>ws\<close>.\<close>

function lstrip :: "string list \<Rightarrow> string \<Rightarrow> string" where
  "lstrip ws s =
     (case find (\<lambda>w. w \<noteq> [] \<and> prefix w s) ws of
        None \<Rightarrow> s
      | Some w \<Rightarrow> lstrip ws (drop (length w) s))"
  by pat_completeness auto
termination
  by (relation "measure (\<lambda>(ws, s). length s)") (auto simp: find_Some_iff prefix_def)

definition strip :: "string \<Rightarrow> string" where
  "strip s = rev (lstrip (map rev whitespace) (rev (lstrip whitespace s)))"

text \<open>\<^verbatim>\<open>str(n)\<close> of an integer, as an f-string formats it.\<close>

fun str_nat :: "nat \<Rightarrow> string" where
  "str_nat n = (if n < 10 then [char_of (48 + n)] else str_nat (n div 10) @ [char_of (48 + n mod 10)])"

definition str_int :: "int \<Rightarrow> string" where
  "str_int i = (if i < 0 then ''-'' @ str_nat (nat (- i)) else str_nat (nat i))"

text \<open>\<^verbatim>\<open>request.referrer or url_for('index')\<close>.\<close>

definition back_url :: "request \<Rightarrow> string" where
  "back_url req = (case referrer req of None \<Rightarrow> ''/'' | Some r \<Rightarrow> if r \<noteq> [] then r else ''/'')"

definition xhr :: "request \<Rightarrow> bool" where
  "xhr req = (headers req ''X-Requested-With'' = Some ''XMLHttpRequest'')"

text \<open>
  The decorator \<^verbatim>\<open>login_required\<close>: without \<^verbatim>\<open>admin_id\<close> in the session the route's
  body does not run.
\<close>

definition login_required :: "session \<Rightarrow> (state \<Rightarrow> state \<times> response) \<Rightarrow> state \<Rightarrow> state \<times> response" where
  "login_required sess f st =
     (if sess ''admin_id'' = None
      then (st, Redirect ''/admin/login'' ''Please login to access this page.'' ''warning'')
      else f st)"

subsection \<open>Public routes\<close>

text \<open>
  \<^verbatim>\<open>subscribe()\<close>. A new row takes \<open>name\<close> and \<open>insurance_type\<close> from the form (the empty
  string when the field is missing), the column defaults \<open>status = 'active'\<close> and
  \<open>subscribed_at = utcnow()\<close>, and NULL for the rest. The lookup before the insert is what
  keeps the insert within the column's UNIQUE constraint.
\<close>

definition subscribe :: "'tok env \<Rightarrow> request \<Rightarrow> state \<Rightarrow> state \<times> response" where
  "subscribe env req st =
     (let addr = strip (get_default (form req) ''email'' '''');
          nm = strip (get_default (form req) ''name'' '''');
          itype = strip (get_default (form req) ''insurance_type'' '''')
      in
      if addr = [] \<or> \<not> validate_email_address env addr then
        (if xhr req then (st, Json False ''Please provide a valid email address.'')
         else (st, Redirect (back_url req) ''Please provide a valid email address.'' ''error''))
      else
        case first (filter_by_email addr (subscribers st)) of
          Some existing \<Rightarrow>
            if status existing = Some ''unsubscribed'' then
              let st' = update_subscriber (sub_id existing)
                          (\<lambda>r. r\<lparr>status := Some ''active'',
                                  name := (if nm \<noteq> [] then Some nm else name existing)\<rparr>) st
              in
              if xhr req
              then (st', Json True ''Welcome back! Your subscription has been reactivated.'')
              else (st', Redirect (back_url req)
                           ''Welcome back! Your subscription has been reactivated.'' ''success'')
            else
              if xhr req then (st, Json False ''You are already subscribed!'')
              else (st, Redirect (back_url req) ''You are already subscribed!'' ''info'')
        | None \<Rightarrow>
            let (now, st1) = utcnow env st;
                subscriber = \<lparr>sub_id = next_id (map sub_id (subscribers st1)),
                              email = addr, name = Some nm, phone = None,
                              insurance_type = Some itype, status = Some ''active'',
                              subscribed_at = Some now, last_campaign_sent = None\<rparr>;
                st' = st1\<lparr>subscribers := subscribers st1 @ [subscriber]\<rparr>
            in
            if xhr req
            then (st', Json True
                         ''Thank you for subscribing! You will receive our latest updates.'')
            else (st', Redirect (back_url req)
                         ''Thank you for subscribing! You will receive our latest updates.''
                         ''success''))"

text \<open>
  \<^verbatim>\<open>unsubscribe(token)\<close>. \<^verbatim>\<open>serializer.loads\<close> reads the clock; the bare \<^verbatim>\<open>except\<close>
  turns its exception into the flashed message.
\<close>

definition unsubscribe :: "'tok env \<Rightarrow> 'tok \<Rightarrow> state \<Rightarrow> state \<times> response" where
  "unsubscribe env token st =
     (let (now, st1) = read_clock env st in
      case loads env token ''unsubscribe'' 31536000 now of
        Inr addr \<Rightarrow>
          (case first (filter_by_email addr (subscribers st1)) of
             Some subscriber \<Rightarrow>
               (update_subscriber (sub_id subscriber) (\<lambda>r. r\<lparr>status := Some ''unsubscribed''\<rparr>) st1,
                Redirect ''/'' ''You have been successfully unsubscribed.'' ''success'')
           | None \<Rightarrow> (st1, Redirect ''/'' ''Subscriber not found.'' ''error''))
      | Inl e \<Rightarrow> (st1, Redirect ''/'' ''Invalid or expired unsubscribe link.'' ''error''))"

subsection \<open>Admin routes\<close>

text \<open>
  The target subscribers of \<^verbatim>\<open>send_campaign\<close>: \<^verbatim>\<open>filter_by(status='active')\<close> for the
  segment \<open>active\<close>, \<^verbatim>\<open>status.in_(['active', ''])\<close> for any other. A NULL status equals
  nothing, in SQL as here.
\<close>

definition target_subscribers :: "string option \<Rightarrow> subscriber list \<Rightarrow> subscriber list" where
  "target_subscribers segment rows =
     (if segment = Some ''active''
      then filter (\<lambda>r. status r = Some ''active'') rows
      else filter (\<lambda>r. case status r of None \<Rightarrow> False | Some s \<Rightarrow> s \<in> set [''active'', '''']) rows)"

text \<open>
  The body of the loop of \<^verbatim>\<open>send_campaign\<close> for one subscriber: \<open>True\<close> when
  \<^verbatim>\<open>sent_count\<close> is incremented, \<open>False\<close> when \<^verbatim>\<open>failed_count\<close> is, in the
  \<^verbatim>\<open>else\<close> or in the \<^verbatim>\<open>except\<close>. \<^verbatim>\<open>serializer.dumps\<close> reads the clock.
\<close>

definition send_one :: "'tok env \<Rightarrow> campaign \<Rightarrow> subscriber \<Rightarrow> state \<Rightarrow> bool \<times> state" where
  "send_one env c s st =
     (let (t, st1) = read_clock env st in
      case dumps env (email s) ''unsubscribe'' t of
        Inl e \<Rightarrow> (False, st1)
      | Inr token \<Rightarrow>
          let html_content = get_email_template (template_type c) (content c) (tok_str env token);
              (ok, st2) = send_email env (email s) (subject c) html_content None st1
          in
          if ok then
            let (now, st3) = utcnow env st2
            in (True, update_subscriber (sub_id s) (\<lambda>r. r\<lparr>last_campaign_sent := Some now\<rparr>) st3)
          else (False, st2))"

text \<open>The loop, with its two counters.\<close>

fun send_loop ::
  "'tok env \<Rightarrow> campaign \<Rightarrow> subscriber list \<Rightarrow> int \<times> int \<times> state \<Rightarrow> int \<times> int \<times> state" where
  "send_loop env c [] acc = acc"
| "send_loop env c (s # rest) (sent, failed, st) =
     (let (ok, st') = send_one env c s st in
      if ok then send_loop env c rest (sent + 1, failed, st')
      else send_loop env c rest (sent, failed + 1, st'))"

definition send_campaign :: "'tok env \<Rightarrow> session \<Rightarrow> int \<Rightarrow> state \<Rightarrow> state \<times> response" where
  "send_campaign env sess campaign_id =
     login_required sess (\<lambda>st.
       case get_campaign campaign_id st of
         None \<Rightarrow> (st, Abort404)
       | Some c \<Rightarrow>
           if camp_status c = Some ''sent''
           then (st, Json False ''Campaign has already been sent.'')
           else
             let subs = target_subscribers (target_segment c) (subscribers st) in
             if subs = [] then (st, Json False ''No subscribers found for this campaign.'')
             else
               let st1 = update_campaign (camp_id c)
                           (\<lambda>r. r\<lparr>camp_status := Some ''sending'',
                                   total_recipients := Some (int (length subs))\<rparr>) st;
                   (sent, failed, st2) = send_loop env c subs (0, 0, st1);
                   (now, st3) = utcnow env st2;
                   st4 = update_campaign (camp_id c)
                           (\<lambda>r. r\<lparr>camp_status := Some ''sent'', sent_at := Some now,
                                   sent_count := Some sent, failed_count := Some failed\<rparr>) st3
               in (st4, Json_tally True
                          (''Campaign sent! '' @ str_int sent @ '' successful, '' @
                           str_int failed @ '' failed.'')
                          sent failed))"

definition delete_campaign :: "session \<Rightarrow> int \<Rightarrow> state \<Rightarrow> state \<times> response" where
  "delete_campaign sess campaign_id =
     login_required sess (\<lambda>st.
       case get_campaign campaign_id st of
         None \<Rightarrow> (st, Abort404)
       | Some c \<Rightarrow>
           if camp_status c = Some ''sent''
           then (st, Redirect ''/admin/campaigns'' ''Cannot delete sent campaigns.'' ''error'')
           else (st\<lparr>campaigns := filter (\<lambda>r. camp_id r \<noteq> camp_id c) (campaigns st)\<rparr>,
                 Redirect ''/admin/campaigns'' ''Campaign deleted successfully.'' ''success''))"

subsection \<open>The token codec\<close>

text \<open>
  Modelled from the spec: the serializer (\<^verbatim>\<open>URLSafeTimedSerializer\<close> of itsdangerous) is
  not under \<^verbatim>\<open>src/\<close>. After section 4.1 of the spec: \<open>issue\<close> serializes the email, the
  purpose tag and the timestamp and signs them with the secret key; \<open>verify\<close> checks the
  signature and that the time elapsed since issuance is at most the maximum age, and
  fails with \<open>InvalidToken\<close> (bad signature or malformed) or \<open>ExpiredToken\<close> (age
  exceeded). The signature scheme is a parameter \<open>mac\<close>: a function of the key and the
  signed data. The token is the capsule itself, not its text.
\<close>

record token =
  payload :: string
  purpose :: string
  issued_at :: int
  signature :: string

type_synonym mac = "string \<Rightarrow> string \<times> string \<times> int \<Rightarrow> string"

definition issue :: "mac \<Rightarrow> string \<Rightarrow> string \<Rightarrow> string \<Rightarrow> int \<Rightarrow> token" where
  "issue sig key addr salt now =
     \<lparr>payload = addr, purpose = salt, issued_at = now, signature = sig key (salt, addr, now)\<rparr>"

definition verify :: "mac \<Rightarrow> string \<Rightarrow> token \<Rightarrow> string \<Rightarrow> int \<Rightarrow> int \<Rightarrow> exn + string" where
  "verify sig key tok salt max_age now =
     (if purpose tok \<noteq> salt \<or> signature tok \<noteq> sig key (salt, payload tok, issued_at tok)
      then Inl InvalidToken
      else if now - issued_at tok > max_age then Inl ExpiredToken
      else Inr (payload tok))"

text \<open>An environment whose serializer is this codec, under one key.\<close>

definition uses_codec :: "mac \<Rightarrow> string \<Rightarrow> token env \<Rightarrow> bool" where
  "uses_codec sig key env =
     (dumps env = (\<lambda>obj salt now. Inr (issue sig key obj salt now)) \<and>
      loads env = verify sig key)"

subsection \<open>Notions the properties are stated with\<close>

text \<open>
  Uniqueness of the addresses up to the case of ASCII letters: no two rows whose addresses
  are equal once folded to lower case.
\<close>

definition lower :: "char \<Rightarrow> char" where
  "lower ch =
     (case map_of (zip ''ABCDEFGHIJKLMNOPQRSTUVWXYZ'' ''abcdefghijklmnopqrstuvwxyz'') ch of
        Some l \<Rightarrow> l
      | None \<Rightarrow> ch)"

definition case_insensitive_unique :: "state \<Rightarrow> bool" where
  "case_insensitive_unique st = distinct (map (\<lambda>r. map lower (email r)) (subscribers st))"

text \<open>
  The outcome of each pass through the loop of \<^verbatim>\<open>send_campaign\<close>, in order: \<open>True\<close> for
  a delivery, \<open>False\<close> for a failure.
\<close>

fun outcomes :: "'tok env \<Rightarrow> campaign \<Rightarrow> subscriber list \<Rightarrow> state \<Rightarrow> bool list" where
  "outcomes env c [] st = []"
| "outcomes env c (s # rest) st =
     (let (ok, st') = send_one env c s st in ok # outcomes env c rest st')"

text \<open>The state the loop leaves.\<close>

fun after_loop :: "'tok env \<Rightarrow> campaign \<Rightarrow> subscriber list \<Rightarrow> state \<Rightarrow> state" where
  "after_loop env c [] st = st"
| "after_loop env c (s # rest) st = after_loop env c rest (snd (send_one env c s st))"

subsection \<open>A concrete process, for evaluation\<close>

text \<open>
  The defaults of the module for the relay and the sender, credentials that are set, a
  clock that advances one second a reading, a validator that accepts an address with an
  \<open>@\<close>, a relay that refuses one recipient, and the codec above under a toy signature.
\<close>

definition demo_mac :: mac where
  "demo_mac key d = (case d of (salt, addr, t) \<Rightarrow> key @ '':'' @ salt @ '':'' @ addr)"

definition demo_env :: "token env" where
  "demo_env =
     \<lparr>SMTP_SERVER = ''smtp.gmail.com'', SMTP_PORT = 587,
      SMTP_USERNAME = ''mailer'', SMTP_PASSWORD = ''hunter2'',
      FROM_EMAIL = ''noreply@insurancepro.com'',
      clock = (\<lambda>n. 1000 + int n),
      validate_email = (\<lambda>a. if CHR ''@'' \<in> set a then Inr a else Inl EmailNotValidError),
      smtp = (\<lambda>log conn. if msg_to (conn_message conn) = ''bob@gmail.com''
                          then Some (Exception ''refused'') else None),
      dumps = (\<lambda>obj salt now. Inr (issue demo_mac ''k'' obj salt now)),
      loads = verify demo_mac ''k'',
      tok_str = (\<lambda>tok. payload tok @ ''.'' @ signature tok)\<rparr>"

definition demo_subscriber :: "int \<Rightarrow> string \<Rightarrow> string \<Rightarrow> subscriber" where
  "demo_subscriber i addr st =
     \<lparr>sub_id = i, email = addr, name = Some ''N'', phone = None, insurance_type = Some ''auto'',
      status = Some st, subscribed_at = Some 10, last_campaign_sent = None\<rparr>"

definition demo_campaign :: "int \<Rightarrow> string \<Rightarrow> string \<Rightarrow> campaign" where
  "demo_campaign i seg st =
     \<lparr>camp_id = i, camp_name = ''Spring'', subject = ''Hello'', content = ''<p>Hi</p>'',
      template_type = Some ''promotional'', camp_status = Some st, target_segment = Some seg,
      created_at = Some 20, sent_at = None, total_recipients = Some 0, sent_count = Some 0,
      failed_count = Some 0, opened_count = Some 0\<rparr>"

definition demo_state :: state where
  "demo_state =
     \<lparr>subscribers =
        [demo_subscriber 1 ''ann@gmail.com'' ''active'',
         demo_subscriber 2 ''bob@gmail.com'' ''active'',
         demo_subscriber 3 ''cy@gmail.com'' ''unsubscribed'',
         demo_subscriber 4 ''di@gmail.com'' '''',
         demo_subscriber 5 ''ed@gmail.com'' ''bounced''],
      campaigns = [demo_campaign 1 ''all'' ''draft'', demo_campaign 2 ''active'' ''sent''],
      ticks = 0, wire = []\<rparr>"

definition lonely_state :: state where
  "lonely_state = demo_state\<lparr>subscribers := [demo_subscriber 3 ''cy@gmail.com'' ''unsubscribed'']\<rparr>"

definition demo_request :: "string \<Rightarrow> string \<Rightarrow> string \<Rightarrow> request" where
  "demo_request addr nm itype =
     \<lparr>form = [''email'' \<mapsto> addr, ''name'' \<mapsto> nm, ''insurance_type'' \<mapsto> itype],
      headers = [''X-Requested-With'' \<mapsto> ''XMLHttpRequest''], referrer = None\<rparr>"

definition admin_session :: session where
  "admin_session = [''admin_id'' \<mapsto> 1]"

section \<open>Properties\<close>

subsection \<open>The templates\<close>

text \<open>
  Each variant's piece before the link ends with the opening of an anchor, and the piece
  after it starts by closing the tag.
\<close>

lemma default_2_anchor: "suffix ''<a href=\"'' default_2"
  by (simp add: default_2_def suffix_def)
lemma promotional_2_anchor: "suffix ''<a href=\"'' promotional_2"
  by (simp add: promotional_2_def suffix_def)
lemma newsletter_2_anchor: "suffix ''<a href=\"'' newsletter_2"
  by (simp add: newsletter_2_def suffix_def)
lemma default_3_anchor: "prefix ''\">'' default_3"
  by (simp add: default_3_def)
lemma promotional_3_anchor: "prefix ''\">'' promotional_3"
  by (simp add: promotional_3_def)
lemma newsletter_3_anchor: "prefix ''\">'' newsletter_3"
  by (simp add: newsletter_3_def)

lemma anchor_between:
  assumes "suffix a m" and "prefix b t"
  shows "sublist (a @ l @ b) (h @ c @ m @ l @ t)"
proof -
  from assms obtain m' t' where "m = m' @ a" and "t = b @ t'"
    by (auto simp: suffix_def prefix_def)
  then have "h @ c @ m @ l @ t = (h @ c @ m') @ (a @ l @ b) @ t'"
    by simp
  then show ?thesis
    unfolding sublist_def by blast
qed

lemma get_email_template_default:
  "get_email_template (Some ''default'') body tok =
     default_1 @ body @ default_2 @ (''http://localhost:5000/unsubscribe/'' @ tok) @ default_3"
  by (simp add: get_email_template_def templates_def)

lemma get_email_template_promotional:
  "get_email_template (Some ''promotional'') body tok =
     promotional_1 @ body @ promotional_2 @ (''http://localhost:5000/unsubscribe/'' @ tok) @ promotional_3"
  by (simp add: get_email_template_def templates_def)

lemma get_email_template_newsletter:
  "get_email_template (Some ''newsletter'') body tok =
     newsletter_1 @ body @ newsletter_2 @ (''http://localhost:5000/unsubscribe/'' @ tok) @ newsletter_3"
  by (simp add: get_email_template_def templates_def)

lemma get_email_template_fallback:
  assumes "variant \<notin> {Some ''default'', Some ''promotional'', Some ''newsletter''}"
  shows "get_email_template variant body tok = get_email_template (Some ''default'') body tok"
  using assms by (cases variant) (auto simp: get_email_template_def templates_def)

text \<open>
  C7: \<open>get_email_template\<close> is a function of its three arguments and nothing else. For
  every body and token, the document of each of the three variants contains the
  unsubscribe link (the fixed prefix followed by the token, byte for byte) as the
  \<open>href\<close> of an anchor; and a variant that is none of \<open>default\<close>, \<open>promotional\<close>,
  \<open>newsletter\<close> (NULL included) gets the document of \<open>default\<close>.
\<close>

theorem get_email_template_anchor:
  "sublist (''<a href=\"'' @ (''http://localhost:5000/unsubscribe/'' @ tok) @ ''\">'')
     (get_email_template (Some ''default'') body tok)
   \<and> sublist (''<a href=\"'' @ (''http://localhost:5000/unsubscribe/'' @ tok) @ ''\">'')
     (get_email_template (Some ''promotional'') body tok)
   \<and> sublist (''<a href=\"'' @ (''http://localhost:5000/unsubscribe/'' @ tok) @ ''\">'')
     (get_email_template (Some ''newsletter'') body tok)
   \<and> (variant \<notin> {Some ''default'', Some ''promotional'', Some ''newsletter''} \<longrightarrow>
        get_email_template variant body tok = get_email_template (Some ''default'') body tok)"
proof (intro conjI impI)
  show "sublist (''<a href=\"'' @ (''http://localhost:5000/unsubscribe/'' @ tok) @ ''\">'')
     (get_email_template (Some ''default'') body tok)"
    by (subst get_email_template_default)
       (rule anchor_between [OF default_2_anchor default_3_anchor])
  show "sublist (''<a href=\"'' @ (''http://localhost:5000/unsubscribe/'' @ tok) @ ''\">'')
     (get_email_template (Some ''promotional'') body tok)"
    by (subst get_email_template_promotional)
       (rule anchor_between [OF promotional_2_anchor promotional_3_anchor])
  show "sublist (''<a href=\"'' @ (''http://localhost:5000/unsubscribe/'' @ tok) @ ''\">'')
     (get_email_template (Some ''newsletter'') body tok)"
    by (subst get_email_template_newsletter)
       (rule anchor_between [OF newsletter_2_anchor newsletter_3_anchor])
next
  assume "variant \<notin> {Some ''default'', Some ''promotional'', Some ''newsletter''}"
  then show "get_email_template variant body tok = get_email_template (Some ''default'') body tok"
    by (rule get_email_template_fallback)
qed

theorem get_email_template_anchor_witness:
  "Some ''seasonal'' \<notin> {Some ''default'', Some ''promotional'', Some ''newsletter''}
   \<and> sublist ''<a href=\"http://localhost:5000/unsubscribe/T0\">''
        (get_email_template (Some ''promotional'') ''<p>Hi</p>'' ''T0'')
   \<and> get_email_template (Some ''seasonal'') ''<p>Hi</p>'' ''T0''
       = get_email_template (Some ''default'') ''<p>Hi</p>'' ''T0''"
  using get_email_template_anchor [of "''T0''" "''<p>Hi</p>''" "Some ''seasonal''"]
  by simp

subsection \<open>The mail transport\<close>

text \<open>
  C9: when \<open>SMTP_USERNAME\<close> or \<open>SMTP_PASSWORD\<close> is empty, \<open>send_email\<close> returns
  \<open>False\<close> and leaves the state as it was, for every recipient, subject and body: no
  connection is added to the wire, the clock is not read, and no exception leaves the
  function (its result is a boolean).
\<close>

theorem send_email_without_credentials:
  "SMTP_USERNAME env = [] \<or> SMTP_PASSWORD env = [] \<Longrightarrow>
   send_email env to_email subj html_content text_content st = (False, st)"
  by (auto simp: send_email_def)

theorem send_email_without_credentials_witness:
  "SMTP_PASSWORD (demo_env\<lparr>SMTP_PASSWORD := ''''\<rparr>) = []
   \<and> send_email (demo_env\<lparr>SMTP_PASSWORD := ''''\<rparr>) ''ann@gmail.com'' ''Hello'' ''<p>Hi</p>'' None demo_state
       = (False, demo_state)
   \<and> wire (snd (send_email demo_env ''ann@gmail.com'' ''Hello'' ''<p>Hi</p>'' None demo_state)) \<noteq> wire demo_state"
  using send_email_without_credentials [of "demo_env\<lparr>SMTP_PASSWORD := ''''\<rparr>" "''ann@gmail.com''" "''Hello''" "''<p>Hi</p>''" None demo_state]
  by (simp add: demo_env_def send_email_def demo_state_def)

subsection \<open>Queries and the dispatch loop\<close>

lemma first_filter_Some: "first (filter P xs) = Some x \<Longrightarrow> P x \<and> x \<in> set xs"
  by (induction xs) (auto simp: first_def split: if_splits)

lemma get_campaign_id: "get_campaign i st = Some c \<Longrightarrow> camp_id c = i"
  unfolding get_campaign_def by (drule first_filter_Some) simp

lemma first_filter_map_update:
  assumes "first (filter (\<lambda>c. camp_id c = i) cs) = Some c" and "\<And>r. camp_id (f r) = camp_id r"
  shows "first (filter (\<lambda>c. camp_id c = i) (map (\<lambda>r. if camp_id r = i then f r else r) cs)) = Some (f c)"
  using assms by (induction cs) (auto simp: first_def split: if_splits)

lemma get_campaign_update:
  assumes "get_campaign i st = Some c" and "\<And>r. camp_id (f r) = camp_id r"
  shows "get_campaign i (update_campaign i f st) = Some (f c)"
  using first_filter_map_update [OF assms [unfolded get_campaign_def]]
  by (simp add: get_campaign_def update_campaign_def)

text \<open>
  When a pass of the loop counts as sent: the serializer returns a token, both credentials
  are set, and the connection that carries the rendered message raises nothing.
\<close>

lemma send_one_outcome:
  "fst (send_one env c s st) =
     (case dumps env (email s) ''unsubscribe'' (clock env (ticks st)) of
        Inl e \<Rightarrow> False
      | Inr token \<Rightarrow>
          SMTP_USERNAME env \<noteq> [] \<and> SMTP_PASSWORD env \<noteq> [] \<and>
          smtp env (wire st)
            \<lparr>conn_host = SMTP_SERVER env, conn_port = SMTP_PORT env,
             conn_user = SMTP_USERNAME env, conn_password = SMTP_PASSWORD env,
             conn_message =
               \<lparr>msg_subject = subject c, msg_from = FROM_EMAIL env, msg_to = email s,
                msg_parts =
                  [(''html'',
                    get_email_template (template_type c) (content c) (tok_str env token))]\<rparr>\<rparr>
            = None)"
  by (auto simp: send_one_def read_clock_def utcnow_def send_email_def Let_def
        split: sum.splits option.splits)

lemma send_one_campaigns: "campaigns (snd (send_one env c s st)) = campaigns st"
  by (auto simp: send_one_def read_clock_def utcnow_def update_subscriber_def Let_def
        send_email_def split: sum.splits option.splits prod.splits if_splits)

lemma after_loop_campaigns: "campaigns (after_loop env c subs st) = campaigns st"
  by (induction subs arbitrary: st) (simp_all add: send_one_campaigns)

lemma send_loop_counts:
  "send_loop env c subs (sent, failed, st) =
     (sent + int (length (filter (\<lambda>ok. ok) (outcomes env c subs st))),
      failed + int (length (filter (\<lambda>ok. \<not> ok) (outcomes env c subs st))),
      after_loop env c subs st)"
proof (induction subs arbitrary: sent failed st)
  case Nil
  show ?case by simp
next
  case (Cons s rest)
  obtain ok st' where one: "send_one env c s st = (ok, st')"
    by (cases "send_one env c s st")
  show ?case
    by (cases ok) (simp_all add: one Cons.IH)
qed

lemma length_outcomes: "length (outcomes env c subs st) = length subs"
  by (induction subs arbitrary: st) (simp_all add: split_def Let_def)

lemma filter_split_length:
  "int (length (filter (\<lambda>ok. ok) bs)) = int (length bs) - int (length (filter (\<lambda>ok. \<not> ok) bs))"
  using sum_length_filter_compl [of "\<lambda>ok. ok" bs] by simp

lemma get_campaign_cong: "campaigns st = campaigns st' \<Longrightarrow> get_campaign i st = get_campaign i st'"
  by (simp add: get_campaign_def)

text \<open>What a dispatch returns, in terms of the outcomes of the loop.\<close>

lemma send_campaign_dispatch:
  assumes login: "sess ''admin_id'' \<noteq> None"
    and found: "get_campaign cid st = Some c"
    and fresh: "camp_status c \<noteq> Some ''sent''"
    and subs: "subs = target_subscribers (target_segment c) (subscribers st)"
    and nonempty: "subs \<noteq> []"
    and st1: "st1 = update_campaign (camp_id c)
                (\<lambda>r. r\<lparr>camp_status := Some ''sending'',
                        total_recipients := Some (int (length subs))\<rparr>) st"
    and K: "K = int (length (filter (\<lambda>ok. \<not> ok) (outcomes env c subs st1)))"
    and N: "N = int (length subs)"
    and st2: "st2 = after_loop env c subs st1"
  shows "send_campaign env sess cid st =
           (update_campaign (camp_id c)
              (\<lambda>r. r\<lparr>camp_status := Some ''sent'', sent_at := Some (clock env (ticks st2)),
                      sent_count := Some (N - K), failed_count := Some K\<rparr>)
              (st2\<lparr>ticks := Suc (ticks st2)\<rparr>),
            Json_tally True
              (''Campaign sent! '' @ str_int (N - K) @ '' successful, '' @ str_int K @ '' failed.'')
              (N - K) K)"
proof -
  have loop: "send_loop env c subs (0, 0, st1) = (N - K, K, st2)"
    unfolding send_loop_counts K N st2
    using filter_split_length [of "outcomes env c subs st1"]
    by (simp add: length_outcomes)
  show ?thesis
    using login found fresh nonempty
    unfolding send_campaign_def login_required_def
    by (simp add: Let_def subs [symmetric] st1 [symmetric] loop utcnow_def read_clock_def)
qed

lemma send_campaign_dispatch_row:
  assumes login: "sess ''admin_id'' \<noteq> None"
    and found: "get_campaign cid st = Some c"
    and fresh: "camp_status c \<noteq> Some ''sent''"
    and subs: "subs = target_subscribers (target_segment c) (subscribers st)"
    and nonempty: "subs \<noteq> []"
    and st1: "st1 = update_campaign (camp_id c)
                (\<lambda>r. r\<lparr>camp_status := Some ''sending'',
                        total_recipients := Some (int (length subs))\<rparr>) st"
    and K: "K = int (length (filter (\<lambda>ok. \<not> ok) (outcomes env c subs st1)))"
    and N: "N = int (length subs)"
    and st2: "st2 = after_loop env c subs st1"
  shows "get_campaign cid (fst (send_campaign env sess cid st)) =
           Some (c\<lparr>camp_status := Some ''sent'', sent_at := Some (clock env (ticks st2)),
                   total_recipients := Some N, sent_count := Some (N - K),
                   failed_count := Some K\<rparr>)"
proof -
  have cid: "camp_id c = cid"
    using found by (rule get_campaign_id)
  have g1: "get_campaign cid st1 =
              Some (c\<lparr>camp_status := Some ''sending'', total_recipients := Some N\<rparr>)"
    unfolding st1 cid N using get_campaign_update [OF found, of "\<lambda>r. r\<lparr>camp_status := Some ''sending'',
                        total_recipients := Some (int (length subs))\<rparr>"] by simp
  have "campaigns (st2\<lparr>ticks := Suc (ticks st2)\<rparr>) = campaigns st1"
    unfolding st2 by (simp add: after_loop_campaigns)
  then have g2: "get_campaign cid (st2\<lparr>ticks := Suc (ticks st2)\<rparr>) =
              Some (c\<lparr>camp_status := Some ''sending'', total_recipients := Some N\<rparr>)"
    using g1 get_campaign_cong by metis
  have run: "send_campaign env sess cid st =
           (update_campaign (camp_id c)
              (\<lambda>r. r\<lparr>camp_status := Some ''sent'', sent_at := Some (clock env (ticks st2)),
                      sent_count := Some (N - K), failed_count := Some K\<rparr>)
              (st2\<lparr>ticks := Suc (ticks st2)\<rparr>),
            Json_tally True
              (''Campaign sent! '' @ str_int (N - K) @ '' successful, '' @ str_int K @ '' failed.'')
              (N - K) K)"
    using login found fresh subs nonempty st1 K N st2 by (rule send_campaign_dispatch)
  show ?thesis
    unfolding run fst_conv cid
    using get_campaign_update [OF g2, of "\<lambda>r. r\<lparr>camp_status := Some ''sent'', sent_at := Some (clock env (ticks st2)),
                      sent_count := Some (N - K), failed_count := Some K\<rparr>"]
    by simp
qed

subsection \<open>The dispatcher\<close>



text \<open>
  C2: the target subscribers of a campaign. With the segment \<open>active\<close> they are exactly the
  rows whose status is \<open>active\<close>; with any other segment (\<open>all\<close>, or NULL) exactly the
  rows whose status is \<open>active\<close> or the empty string; in both cases they are rows of the
  table, and none has the status \<open>bounced\<close> or \<open>unsubscribed\<close>.
\<close>

theorem target_subscribers_segments:
  "target_subscribers (Some ''active'') rows = filter (\<lambda>r. status r = Some ''active'') rows
   \<and> (segment \<noteq> Some ''active'' \<longrightarrow>
        target_subscribers segment rows =
          filter (\<lambda>r. status r = Some ''active'' \<or> status r = Some '''') rows)
   \<and> (\<forall>r \<in> set (target_subscribers segment rows).
        r \<in> set rows \<and> status r \<noteq> Some ''bounced'' \<and> status r \<noteq> Some ''unsubscribed'')"
proof (intro conjI impI ballI)
  show "target_subscribers (Some ''active'') rows = filter (\<lambda>r. status r = Some ''active'') rows"
    by (simp add: target_subscribers_def)
next
  assume "segment \<noteq> Some ''active''"
  moreover have "(case status r of None \<Rightarrow> False | Some s \<Rightarrow> s \<in> set [''active'', ''''])
                 = (status r = Some ''active'' \<or> status r = Some '''')" for r :: subscriber
    by (cases "status r") auto
  ultimately show "target_subscribers segment rows =
          filter (\<lambda>r. status r = Some ''active'' \<or> status r = Some '''') rows"
    by (simp add: target_subscribers_def)
next
  fix r assume "r \<in> set (target_subscribers segment rows)"
  then show "r \<in> set rows" "status r \<noteq> Some ''bounced''" "status r \<noteq> Some ''unsubscribed''"
    by (auto simp: target_subscribers_def split: if_splits option.splits)
qed

theorem target_subscribers_segments_witness:
  "Some ''all'' \<noteq> Some ''active''
   \<and> map sub_id (target_subscribers (Some ''active'') (subscribers demo_state)) = [1, 2]
   \<and> map sub_id (target_subscribers (Some ''all'') (subscribers demo_state)) = [1, 2, 4]
   \<and> demo_subscriber 4 ''di@gmail.com'' '''' \<in> set (target_subscribers (Some ''all'') (subscribers demo_state))
   \<and> status (demo_subscriber 4 ''di@gmail.com'' '''') \<noteq> Some ''bounced''"
  using target_subscribers_segments [of "subscribers demo_state" "Some ''all''"]
  by (simp add: demo_state_def demo_subscriber_def)

text \<open>
  C5: when a campaign has no target subscribers, \<open>send_campaign\<close> leaves the whole state
  as it was (the campaign's row with its status, counters and timestamps, the subscribers,
  the wire and the clock), for every session and every status of the campaign. For a
  logged-in administrator and a campaign that is not already sent (a draft in particular)
  the response is the failure \<open>No subscribers found for this campaign.\<close>; for a campaign
  already sent the earlier guard answers, also with a failure.
\<close>

theorem send_campaign_no_subscribers:
  assumes found: "get_campaign cid st = Some c"
    and empty: "target_subscribers (target_segment c) (subscribers st) = []"
  shows "fst (send_campaign env sess cid st) = st
       \<and> get_campaign cid (fst (send_campaign env sess cid st)) = Some c
       \<and> (sess ''admin_id'' \<noteq> None \<and> camp_status c \<noteq> Some ''sent'' \<longrightarrow>
            snd (send_campaign env sess cid st) =
              Json False ''No subscribers found for this campaign.'')
       \<and> (sess ''admin_id'' \<noteq> None \<and> camp_status c = Some ''sent'' \<longrightarrow>
            snd (send_campaign env sess cid st) = Json False ''Campaign has already been sent.'')"
proof -
  have same: "fst (send_campaign env sess cid st) = st"
    using found empty by (simp add: send_campaign_def login_required_def)
  show ?thesis
    unfolding same using found empty
    by (simp add: send_campaign_def login_required_def)
qed

theorem send_campaign_no_subscribers_witness:
  "get_campaign 1 lonely_state = Some (demo_campaign 1 ''all'' ''draft'')
   \<and> target_subscribers (target_segment (demo_campaign 1 ''all'' ''draft'')) (subscribers lonely_state) = []
   \<and> admin_session ''admin_id'' \<noteq> None
   \<and> camp_status (demo_campaign 1 ''all'' ''draft'') = Some ''draft''
   \<and> send_campaign demo_env admin_session 1 lonely_state =
        (lonely_state, Json False ''No subscribers found for this campaign.'')
   \<and> get_campaign 2 lonely_state = Some (demo_campaign 2 ''active'' ''sent'')
   \<and> target_subscribers (target_segment (demo_campaign 2 ''active'' ''sent'')) (subscribers lonely_state) = []
   \<and> send_campaign demo_env admin_session 2 lonely_state =
        (lonely_state, Json False ''Campaign has already been sent.'')"
proof -
  have found: "get_campaign 1 lonely_state = Some (demo_campaign 1 ''all'' ''draft'')"
    by (simp add: get_campaign_def lonely_state_def demo_state_def demo_campaign_def first_def)
  have empty: "target_subscribers (target_segment (demo_campaign 1 ''all'' ''draft''))
                 (subscribers lonely_state) = []"
    by (simp add: target_subscribers_def lonely_state_def demo_campaign_def demo_subscriber_def)
  have found2: "get_campaign 2 lonely_state = Some (demo_campaign 2 ''active'' ''sent'')"
    by (simp add: get_campaign_def lonely_state_def demo_state_def demo_campaign_def first_def)
  have empty2: "target_subscribers (target_segment (demo_campaign 2 ''active'' ''sent''))
                 (subscribers lonely_state) = []"
    by (simp add: target_subscribers_def lonely_state_def demo_campaign_def demo_subscriber_def)
  have login: "admin_session ''admin_id'' \<noteq> None"
    by (simp add: admin_session_def)
  have draft: "camp_status (demo_campaign 1 ''all'' ''draft'') = Some ''draft''"
    and sent: "camp_status (demo_campaign 2 ''active'' ''sent'') = Some ''sent''"
    by (simp_all add: demo_campaign_def)
  show ?thesis
    using send_campaign_no_subscribers [OF found empty, of demo_env admin_session]
      send_campaign_no_subscribers [OF found2 empty2, of demo_env admin_session]
      found empty found2 empty2 login draft sent
    by (simp add: prod_eq_iff)
qed

text \<open>
  C4: a campaign whose status is \<open>sent\<close> stays as it is. For a logged-in administrator,
  sending it again answers \<open>Campaign has already been sent.\<close> and deleting it is refused
  with \<open>Cannot delete sent campaigns.\<close>, and both leave the whole state unchanged. This
  holds in particular for the state a first send leaves (the second conjunct): the row
  with its \<open>sent_count\<close>, \<open>failed_count\<close>, \<open>total_recipients\<close> and \<open>sent_at\<close> is the one
  the first send wrote.
\<close>

theorem sent_campaign_immutable:
  assumes login: "sess ''admin_id'' \<noteq> None"
    and found: "get_campaign cid st = Some c"
  shows "(camp_status c = Some ''sent'' \<longrightarrow>
            send_campaign env sess cid st = (st, Json False ''Campaign has already been sent.'')
          \<and> delete_campaign sess cid st =
              (st, Redirect ''/admin/campaigns'' ''Cannot delete sent campaigns.'' ''error''))
       \<and> (camp_status c \<noteq> Some ''sent'' \<and>
          target_subscribers (target_segment c) (subscribers st) \<noteq> [] \<longrightarrow>
            send_campaign env' sess cid (fst (send_campaign env sess cid st)) =
              (fst (send_campaign env sess cid st), Json False ''Campaign has already been sent.'')
          \<and> delete_campaign sess cid (fst (send_campaign env sess cid st)) =
              (fst (send_campaign env sess cid st),
               Redirect ''/admin/campaigns'' ''Cannot delete sent campaigns.'' ''error''))"
proof (intro conjI impI)
  assume "camp_status c = Some ''sent''"
  then show "send_campaign env sess cid st = (st, Json False ''Campaign has already been sent.'')"
    and "delete_campaign sess cid st =
              (st, Redirect ''/admin/campaigns'' ''Cannot delete sent campaigns.'' ''error'')"
    using login found by (simp_all add: send_campaign_def delete_campaign_def login_required_def)
next
  assume first_send: "camp_status c \<noteq> Some ''sent'' \<and>
          target_subscribers (target_segment c) (subscribers st) \<noteq> []"
  define subs where "subs = target_subscribers (target_segment c) (subscribers st)"
  define st1 where "st1 = update_campaign (camp_id c)
                (\<lambda>r. r\<lparr>camp_status := Some ''sending'',
                        total_recipients := Some (int (length subs))\<rparr>) st"
  define K where "K = int (length (filter (\<lambda>ok. \<not> ok) (outcomes env c subs st1)))"
  define N where "N = int (length subs)"
  define st2 where "st2 = after_loop env c subs st1"
  define st' where "st' = fst (send_campaign env sess cid st)"
  have fresh: "camp_status c \<noteq> Some ''sent''" and nonempty: "subs \<noteq> []"
    using first_send by (simp_all add: subs_def)
  have "get_campaign cid (fst (send_campaign env sess cid st)) =
           Some (c\<lparr>camp_status := Some ''sent'', sent_at := Some (clock env (ticks st2)),
                   total_recipients := Some N, sent_count := Some (N - K),
                   failed_count := Some K\<rparr>)"
    using login found fresh subs_def nonempty st1_def K_def N_def st2_def
    by (rule send_campaign_dispatch_row)
  then have row: "get_campaign cid st' =
           Some (c\<lparr>camp_status := Some ''sent'', sent_at := Some (clock env (ticks st2)),
                   total_recipients := Some N, sent_count := Some (N - K),
                   failed_count := Some K\<rparr>)"
    by (simp add: st'_def)
  show "send_campaign env' sess cid (fst (send_campaign env sess cid st)) =
              (fst (send_campaign env sess cid st), Json False ''Campaign has already been sent.'')"
    and "delete_campaign sess cid (fst (send_campaign env sess cid st)) =
              (fst (send_campaign env sess cid st),
               Redirect ''/admin/campaigns'' ''Cannot delete sent campaigns.'' ''error'')"
    unfolding st'_def [symmetric] using login row
    by (simp_all add: send_campaign_def delete_campaign_def login_required_def)
qed

theorem sent_campaign_immutable_witness:
  "admin_session ''admin_id'' \<noteq> None
   \<and> get_campaign 2 demo_state = Some (demo_campaign 2 ''active'' ''sent'')
   \<and> camp_status (demo_campaign 2 ''active'' ''sent'') = Some ''sent''
   \<and> send_campaign demo_env admin_session 2 demo_state =
        (demo_state, Json False ''Campaign has already been sent.'')
   \<and> delete_campaign admin_session 2 demo_state =
        (demo_state, Redirect ''/admin/campaigns'' ''Cannot delete sent campaigns.'' ''error'')
   \<and> get_campaign 1 demo_state = Some (demo_campaign 1 ''all'' ''draft'')
   \<and> camp_status (demo_campaign 1 ''all'' ''draft'') \<noteq> Some ''sent''
   \<and> target_subscribers (target_segment (demo_campaign 1 ''all'' ''draft'')) (subscribers demo_state) \<noteq> []
   \<and> send_campaign demo_env admin_session 1 (fst (send_campaign demo_env admin_session 1 demo_state)) =
        (fst (send_campaign demo_env admin_session 1 demo_state),
         Json False ''Campaign has already been sent.'')
   \<and> delete_campaign admin_session 1 (fst (send_campaign demo_env admin_session 1 demo_state)) =
        (fst (send_campaign demo_env admin_session 1 demo_state),
         Redirect ''/admin/campaigns'' ''Cannot delete sent campaigns.'' ''error'')"
proof -
  have login: "admin_session ''admin_id'' \<noteq> None"
    by (simp add: admin_session_def)
  have found2: "get_campaign 2 demo_state = Some (demo_campaign 2 ''active'' ''sent'')"
    by (simp add: get_campaign_def demo_state_def demo_campaign_def first_def)
  have sent2: "camp_status (demo_campaign 2 ''active'' ''sent'') = Some ''sent''"
    by (simp add: demo_campaign_def)
  have found1: "get_campaign 1 demo_state = Some (demo_campaign 1 ''all'' ''draft'')"
    by (simp add: get_campaign_def demo_state_def demo_campaign_def first_def)
  have fresh1: "camp_status (demo_campaign 1 ''all'' ''draft'') \<noteq> Some ''sent''"
    by (simp add: demo_campaign_def)
  have nonempty1: "target_subscribers (target_segment (demo_campaign 1 ''all'' ''draft''))
                     (subscribers demo_state) \<noteq> []"
    by (simp add: target_subscribers_def demo_state_def demo_campaign_def demo_subscriber_def)
  show ?thesis
    using sent_campaign_immutable [where sess = admin_session and cid = 2 and st = demo_state
        and c = "demo_campaign 2 ''active'' ''sent''" and env = demo_env and env' = demo_env]
      sent_campaign_immutable [where sess = admin_session and cid = 1 and st = demo_state
        and c = "demo_campaign 1 ''all'' ''draft''" and env = demo_env and env' = demo_env]
      login found2 sent2 found1 fresh1 nonempty1
    by simp
qed

subsection \<open>The subscriber registry\<close>

text \<open>What \<open>subscribe\<close> does in each of its three cases, for an address that passes the check.\<close>

lemma subscribe_new:
  assumes addr: "addr = strip (get_default (form req) ''email'' '''')"
    and ok: "addr \<noteq> []" "validate_email_address env addr"
    and none: "filter_by_email addr (subscribers st) = []"
  shows "fst (subscribe env req st) =
           st\<lparr>ticks := Suc (ticks st),
              subscribers := subscribers st @
                [\<lparr>sub_id = next_id (map sub_id (subscribers st)), email = addr,
                  name = Some (strip (get_default (form req) ''name'' '''')), phone = None,
                  insurance_type = Some (strip (get_default (form req) ''insurance_type'' '''')),
                  status = Some ''active'', subscribed_at = Some (clock env (ticks st)),
                  last_campaign_sent = None\<rparr>]\<rparr>"
    and "snd (subscribe env req st) =
           (if xhr req
            then Json True ''Thank you for subscribing! You will receive our latest updates.''
            else Redirect (back_url req)
                   ''Thank you for subscribing! You will receive our latest updates.'' ''success'')"
  using ok none unfolding subscribe_def addr [symmetric]
  by (simp_all add: Let_def first_def utcnow_def read_clock_def)

lemma subscribe_again:
  assumes addr: "addr = strip (get_default (form req) ''email'' '''')"
    and ok: "addr \<noteq> []" "validate_email_address env addr"
    and found: "first (filter_by_email addr (subscribers st)) = Some existing"
    and active: "status existing \<noteq> Some ''unsubscribed''"
  shows "subscribe env req st =
           (st, if xhr req then Json False ''You are already subscribed!''
                else Redirect (back_url req) ''You are already subscribed!'' ''info'')"
  using ok found active unfolding subscribe_def addr [symmetric]
  by (simp add: Let_def)

lemma subscribe_back:
  assumes addr: "addr = strip (get_default (form req) ''email'' '''')"
    and ok: "addr \<noteq> []" "validate_email_address env addr"
    and found: "first (filter_by_email addr (subscribers st)) = Some existing"
    and gone: "status existing = Some ''unsubscribed''"
  shows "subscribe env req st =
           (update_subscriber (sub_id existing)
              (\<lambda>r. r\<lparr>status := Some ''active'',
                      name := (if strip (get_default (form req) ''name'' '''') \<noteq> []
                               then Some (strip (get_default (form req) ''name'' ''''))
                               else name existing)\<rparr>) st,
            if xhr req then Json True ''Welcome back! Your subscription has been reactivated.''
            else Redirect (back_url req)
                   ''Welcome back! Your subscription has been reactivated.'' ''success'')"
  using ok found gone unfolding subscribe_def addr [symmetric]
  by (simp add: Let_def)

text \<open>
  C6: an address that passes the check (not empty after stripping, accepted by the
  validator) and has no row yet. After \<open>subscribe\<close> with it, a second \<open>subscribe\<close> with the
  same address (whatever its other fields and headers) answers
  \<open>You are already subscribed!\<close> and returns the state the first call left, unchanged; after
  the first call and after the second there is exactly one row with that address.
\<close>

theorem subscribe_twice:
  assumes addr: "addr = strip (get_default (form req) ''email'' '''')"
    and again: "addr = strip (get_default (form req') ''email'' '''')"
    and ok: "addr \<noteq> []" "validate_email_address env addr"
    and none: "filter_by_email addr (subscribers st) = []"
  shows "subscribe env req' (fst (subscribe env req st)) =
           (fst (subscribe env req st),
            if xhr req' then Json False ''You are already subscribed!''
            else Redirect (back_url req') ''You are already subscribed!'' ''info'')
       \<and> length (filter_by_email addr (subscribers (fst (subscribe env req st)))) = 1
       \<and> length (filter_by_email addr
            (subscribers (fst (subscribe env req' (fst (subscribe env req st)))))) = 1"
proof -
  define row where "row =
     \<lparr>sub_id = next_id (map sub_id (subscribers st)), email = addr,
      name = Some (strip (get_default (form req) ''name'' '''')), phone = None,
      insurance_type = Some (strip (get_default (form req) ''insurance_type'' '''')),
      status = Some ''active'', subscribed_at = Some (clock env (ticks st)),
      last_campaign_sent = None\<rparr>"
  define st1 where "st1 = fst (subscribe env req st)"
  have st1: "st1 = st\<lparr>ticks := Suc (ticks st), subscribers := subscribers st @ [row]\<rparr>"
    unfolding st1_def row_def using addr ok none by (rule subscribe_new(1))
  have rows: "filter_by_email addr (subscribers st1) = [row]"
    using none by (simp add: st1 filter_by_email_def row_def)
  then have found: "first (filter_by_email addr (subscribers st1)) = Some row"
    by (simp add: first_def)
  have active: "status row \<noteq> Some ''unsubscribed''"
    by (simp add: row_def)
  have second: "subscribe env req' st1 =
           (st1, if xhr req' then Json False ''You are already subscribed!''
                 else Redirect (back_url req') ''You are already subscribed!'' ''info'')"
    using again ok found active by (rule subscribe_again)
  show ?thesis
    unfolding st1_def [symmetric] second fst_conv
    by (simp add: rows)
qed

theorem subscribe_twice_witness:
  "''fay@gmail.com'' = strip (get_default (form (demo_request '' fay@gmail.com '' ''Fay'' ''home'')) ''email'' '''')
   \<and> ''fay@gmail.com'' = strip (get_default (form (demo_request ''fay@gmail.com'' '''' '''')) ''email'' '''')
   \<and> validate_email_address demo_env ''fay@gmail.com''
   \<and> filter_by_email ''fay@gmail.com'' (subscribers demo_state) = []
   \<and> subscribe demo_env (demo_request ''fay@gmail.com'' '''' '''')
        (fst (subscribe demo_env (demo_request '' fay@gmail.com '' ''Fay'' ''home'') demo_state)) =
        (fst (subscribe demo_env (demo_request '' fay@gmail.com '' ''Fay'' ''home'') demo_state),
         Json False ''You are already subscribed!'')
   \<and> length (filter_by_email ''fay@gmail.com''
        (subscribers (fst (subscribe demo_env (demo_request ''fay@gmail.com'' '''' '''')
           (fst (subscribe demo_env (demo_request '' fay@gmail.com '' ''Fay'' ''home'') demo_state)))))) = 1"
proof -
  have addr: "''fay@gmail.com'' = strip (get_default (form (demo_request '' fay@gmail.com '' ''Fay'' ''home'')) ''email'' '''')"
    by (simp add: demo_request_def get_default_def strip_def whitespace_def)
  have again: "''fay@gmail.com'' = strip (get_default (form (demo_request ''fay@gmail.com'' '''' '''')) ''email'' '''')"
    by (simp add: demo_request_def get_default_def strip_def whitespace_def)
  have ok: "''fay@gmail.com'' \<noteq> []" "validate_email_address demo_env ''fay@gmail.com''"
    by (simp_all add: validate_email_address_def demo_env_def)
  have none: "filter_by_email ''fay@gmail.com'' (subscribers demo_state) = []"
    by (simp add: filter_by_email_def demo_state_def demo_subscriber_def)
  have x: "xhr (demo_request ''fay@gmail.com'' '''' '''')"
    by (simp add: xhr_def demo_request_def)
  show ?thesis
    using subscribe_twice [OF addr again ok none] addr again ok none x
    by simp
qed

text \<open>
  C10: \<open>subscribe\<close> for an address whose row has the status \<open>unsubscribed\<close>. The rows with
  the primary key of that row get \<open>status = 'active'\<close> and, when the stripped name of
  the request is not empty, that name (a name of whitespace only, a no-break space for
  one, strips to the empty string and leaves the old name); every other row and every other column stays as it
  was: \<open>id\<close>, \<open>email\<close>, \<open>phone\<close>, \<open>insurance_type\<close>, \<open>subscribed_at\<close> and
  \<open>last_campaign_sent\<close> of all rows, the campaigns, the wire and the clock. The
  \<open>insurance_type\<close> of the request is not used: with that field set to anything, or
  removed, the result is the same.
\<close>

theorem reactivation_frame:
  assumes addr: "addr = strip (get_default (form req) ''email'' '''')"
    and ok: "addr \<noteq> []" "validate_email_address env addr"
    and found: "first (filter_by_email addr (subscribers st)) = Some existing"
    and gone: "status existing = Some ''unsubscribed''"
    and nm: "nm = strip (get_default (form req) ''name'' '''')"
    and st': "st' = fst (subscribe env req st)"
  shows "subscribers st' =
           map (\<lambda>r. if sub_id r = sub_id existing
                    then r\<lparr>status := Some ''active'',
                           name := (if nm \<noteq> [] then Some nm else name existing)\<rparr>
                    else r) (subscribers st)
       \<and> existing\<lparr>status := Some ''active'',
                   name := (if nm \<noteq> [] then Some nm else name existing)\<rparr> \<in> set (subscribers st')
       \<and> map sub_id (subscribers st') = map sub_id (subscribers st)
       \<and> map email (subscribers st') = map email (subscribers st)
       \<and> map phone (subscribers st') = map phone (subscribers st)
       \<and> map insurance_type (subscribers st') = map insurance_type (subscribers st)
       \<and> map subscribed_at (subscribers st') = map subscribed_at (subscribers st)
       \<and> map last_campaign_sent (subscribers st') = map last_campaign_sent (subscribers st)
       \<and> campaigns st' = campaigns st \<and> ticks st' = ticks st \<and> wire st' = wire st
       \<and> subscribe env (req\<lparr>form := (form req)(''insurance_type'' := v)\<rparr>) st = subscribe env req st"
proof -
  let ?f = "\<lambda>r. r\<lparr>status := Some ''active'',
                    name := (if nm \<noteq> [] then Some nm else name existing)\<rparr>"
  have run: "subscribe env req st =
           (update_subscriber (sub_id existing) ?f st,
            if xhr req then Json True ''Welcome back! Your subscription has been reactivated.''
            else Redirect (back_url req)
                   ''Welcome back! Your subscription has been reactivated.'' ''success'')"
    unfolding nm using addr ok found gone by (rule subscribe_back)
  have rows: "subscribers st' = map (\<lambda>r. if sub_id r = sub_id existing then ?f r else r) (subscribers st)"
    by (simp add: st' run update_subscriber_def)
  have "existing \<in> set (subscribers st)"
    using found first_filter_Some [of "\<lambda>r. email r = addr" "subscribers st" existing]
    by (simp add: filter_by_email_def)
  then have member: "?f existing \<in> set (subscribers st')"
    unfolding rows by force
  have rest: "campaigns st' = campaigns st \<and> ticks st' = ticks st \<and> wire st' = wire st"
    by (simp add: st' run update_subscriber_def)
  let ?req = "req\<lparr>form := (form req)(''insurance_type'' := v)\<rparr>"
  have addr2: "addr = strip (get_default (form ?req) ''email'' '''')"
    by (simp add: addr get_default_def)
  have nm2: "strip (get_default (form ?req) ''name'' '''') = nm"
    by (simp add: nm get_default_def)
  have "subscribe env ?req st =
           (update_subscriber (sub_id existing)
              (\<lambda>r. r\<lparr>status := Some ''active'',
                      name := (if strip (get_default (form ?req) ''name'' '''') \<noteq> []
                               then Some (strip (get_default (form ?req) ''name'' ''''))
                               else name existing)\<rparr>) st,
            if xhr ?req then Json True ''Welcome back! Your subscription has been reactivated.''
            else Redirect (back_url ?req)
                   ''Welcome back! Your subscription has been reactivated.'' ''success'')"
    using addr2 ok found gone by (rule subscribe_back)
  then have indep: "subscribe env ?req st = subscribe env req st"
    unfolding nm2 run by (simp add: xhr_def back_url_def)
  show ?thesis
    using member rest indep
    by (simp add: rows comp_def)
qed

theorem reactivation_frame_witness:
  "''cy@gmail.com'' = strip (get_default (form (demo_request ''cy@gmail.com'' [CHR 0xC2, CHR 0xA0] ''home'')) ''email'' '''')
   \<and> validate_email_address demo_env ''cy@gmail.com''
   \<and> first (filter_by_email ''cy@gmail.com'' (subscribers demo_state))
        = Some (demo_subscriber 3 ''cy@gmail.com'' ''unsubscribed'')
   \<and> status (demo_subscriber 3 ''cy@gmail.com'' ''unsubscribed'') = Some ''unsubscribed''
   \<and> strip (get_default (form (demo_request ''cy@gmail.com'' [CHR 0xC2, CHR 0xA0] ''home'')) ''name'' '''') = []
   \<and> subscribers (fst (subscribe demo_env (demo_request ''cy@gmail.com'' [CHR 0xC2, CHR 0xA0] ''home'') demo_state)) =
        [demo_subscriber 1 ''ann@gmail.com'' ''active'',
         demo_subscriber 2 ''bob@gmail.com'' ''active'',
         demo_subscriber 3 ''cy@gmail.com'' ''active'',
         demo_subscriber 4 ''di@gmail.com'' '''',
         demo_subscriber 5 ''ed@gmail.com'' ''bounced'']"
proof -
  let ?req = "demo_request ''cy@gmail.com'' [CHR 0xC2, CHR 0xA0] ''home''"
  have addr: "''cy@gmail.com'' = strip (get_default (form ?req) ''email'' '''')"
    by (simp add: demo_request_def get_default_def strip_def whitespace_def)
  have ok: "''cy@gmail.com'' \<noteq> []" "validate_email_address demo_env ''cy@gmail.com''"
    by (simp_all add: validate_email_address_def demo_env_def)
  have found: "first (filter_by_email ''cy@gmail.com'' (subscribers demo_state))
        = Some (demo_subscriber 3 ''cy@gmail.com'' ''unsubscribed'')"
    by (simp add: filter_by_email_def demo_state_def demo_subscriber_def first_def)
  have gone: "status (demo_subscriber 3 ''cy@gmail.com'' ''unsubscribed'') = Some ''unsubscribed''"
    by (simp add: demo_subscriber_def)
  have nm: "[] = strip (get_default (form ?req) ''name'' '''')"
    by (simp add: demo_request_def get_default_def strip_def whitespace_def)
  show ?thesis
    using reactivation_frame [OF addr ok found gone nm refl] addr ok found gone nm [symmetric]
    by (simp add: demo_state_def demo_subscriber_def)
qed

subsection \<open>Addresses in the table\<close>

text \<open>
  Only the insert of \<open>subscribe\<close> changes the column of addresses, and it adds an address
  that no row has.
\<close>

lemma filter_by_email_empty: "filter_by_email addr rows = [] \<longleftrightarrow> addr \<notin> set (map email rows)"
  by (auto simp: filter_by_email_def filter_empty_conv)

lemma update_subscriber_emails:
  assumes "\<And>r. email (f r) = email r"
  shows "map email (subscribers (update_subscriber i f st)) = map email (subscribers st)"
  using assms by (simp add: update_subscriber_def comp_def)

lemma subscribe_emails:
  "map email (subscribers (fst (subscribe env req st))) = map email (subscribers st)
   \<or> (\<exists>addr. addr \<notin> set (map email (subscribers st))
        \<and> map email (subscribers (fst (subscribe env req st))) = map email (subscribers st) @ [addr])"
proof -
  define addr where "addr = strip (get_default (form req) ''email'' '''')"
  consider (bad) "addr = [] \<or> \<not> validate_email_address env addr"
    | (new) "addr \<noteq> []" "validate_email_address env addr"
        "first (filter_by_email addr (subscribers st)) = None"
    | (old) existing where "addr \<noteq> []" "validate_email_address env addr"
        "first (filter_by_email addr (subscribers st)) = Some existing"
    by (cases "first (filter_by_email addr (subscribers st))") auto
  then show ?thesis
  proof cases
    case bad
    then have "fst (subscribe env req st) = st"
      unfolding subscribe_def addr_def [symmetric] by (auto simp: Let_def)
    then show ?thesis by simp
  next
    case new
    from new(3) have none: "filter_by_email addr (subscribers st) = []"
      by (simp add: first_def split: list.splits)
    have "map email (subscribers (fst (subscribe env req st))) = map email (subscribers st) @ [addr]"
      by (simp add: subscribe_new(1) [OF addr_def new(1,2) none])
    moreover have "addr \<notin> set (map email (subscribers st))"
      using none filter_by_email_empty [of addr "subscribers st"] by blast
    ultimately show ?thesis by blast
  next
    case old
    show ?thesis
    proof (cases "status existing = Some ''unsubscribed''")
      case True
      show ?thesis
        by (simp add: subscribe_back [OF addr_def old True] update_subscriber_emails)
    next
      case False
      show ?thesis
        by (simp add: subscribe_again [OF addr_def old False])
    qed
  qed
qed

lemma unsubscribe_emails:
  "map email (subscribers (fst (unsubscribe env token st))) = map email (subscribers st)"
  by (simp add: unsubscribe_def read_clock_def Let_def update_subscriber_emails
      split: sum.splits option.splits)

lemma send_one_emails:
  "map email (subscribers (snd (send_one env c s st))) = map email (subscribers st)"
  by (auto simp: send_one_def read_clock_def utcnow_def Let_def send_email_def
        update_subscriber_def comp_def split: sum.splits option.splits prod.splits if_splits)

lemma after_loop_emails:
  "map email (subscribers (after_loop env c subs st)) = map email (subscribers st)"
  by (induction subs arbitrary: st) (simp_all add: send_one_emails)

lemma send_campaign_emails:
  "map email (subscribers (fst (send_campaign env sess cid st))) = map email (subscribers st)"
  by (simp add: send_campaign_def login_required_def Let_def send_loop_counts utcnow_def
        read_clock_def update_campaign_def after_loop_emails split: option.splits)

lemma delete_campaign_subscribers:
  "subscribers (fst (delete_campaign sess cid st)) = subscribers st"
  by (simp add: delete_campaign_def login_required_def split: option.splits)

text \<open>
  C8, as the spec states it, fails: \<open>subscribe\<close> looks the address up byte for byte and
  inserts it as typed, so an address that differs from an existing one only in the case
  of a letter gets a second row.
\<close>

theorem case_insensitive_unique_counterexample:
  "case_insensitive_unique demo_state
   \<and> \<not> case_insensitive_unique
         (fst (subscribe demo_env (demo_request ''Ann@gmail.com'' ''Ann'' ''auto'') demo_state))
   \<and> map email (subscribers
         (fst (subscribe demo_env (demo_request ''Ann@gmail.com'' ''Ann'' ''auto'') demo_state)))
       = [''ann@gmail.com'', ''bob@gmail.com'', ''cy@gmail.com'', ''di@gmail.com'',
          ''ed@gmail.com'', ''Ann@gmail.com'']"
proof -
  have addr: "''Ann@gmail.com'' = strip (get_default (form (demo_request ''Ann@gmail.com'' ''Ann'' ''auto'')) ''email'' '''')"
    by (simp add: demo_request_def get_default_def strip_def whitespace_def)
  have ok: "''Ann@gmail.com'' \<noteq> []" "validate_email_address demo_env ''Ann@gmail.com''"
    by (simp_all add: validate_email_address_def demo_env_def)
  have none: "filter_by_email ''Ann@gmail.com'' (subscribers demo_state) = []"
    by (simp add: filter_by_email_def demo_state_def demo_subscriber_def)
  have before: "case_insensitive_unique demo_state"
    by (simp add: case_insensitive_unique_def demo_state_def demo_subscriber_def lower_def)
  show ?thesis
    unfolding subscribe_new(1) [OF addr ok none]
    using before
    by (simp add: case_insensitive_unique_def demo_state_def demo_subscriber_def lower_def)
qed

text \<open>
  C8, amended: the addresses are unique as exact strings. If no two rows have the same
  address, then none do after \<open>subscribe\<close> (a new subscription or a reactivation), after
  \<open>unsubscribe\<close>, after \<open>send_campaign\<close> and after \<open>delete_campaign\<close>, whatever the
  statuses of the rows.
\<close>

theorem exact_email_unique:
  assumes "distinct (map email (subscribers st))"
  shows "distinct (map email (subscribers (fst (subscribe env req st))))
       \<and> distinct (map email (subscribers (fst (unsubscribe env token st))))
       \<and> distinct (map email (subscribers (fst (send_campaign env sess cid st))))
       \<and> distinct (map email (subscribers (fst (delete_campaign sess cid st))))"
proof -
  have "distinct (map email (subscribers (fst (subscribe env req st))))"
    using subscribe_emails [of env req st] assms by auto
  then show ?thesis
    using assms
    by (simp add: unsubscribe_emails send_campaign_emails delete_campaign_subscribers)
qed

theorem exact_email_unique_witness:
  "distinct (map email (subscribers demo_state))
   \<and> distinct (map email (subscribers
        (fst (subscribe demo_env (demo_request ''Ann@gmail.com'' ''Ann'' ''auto'') demo_state))))
   \<and> distinct (map email (subscribers (fst (send_campaign demo_env admin_session 1 demo_state))))"
proof -
  have d: "distinct (map email (subscribers demo_state))"
    by (simp add: demo_state_def demo_subscriber_def)
  show ?thesis
    using exact_email_unique [OF d, of demo_env "demo_request ''Ann@gmail.com'' ''Ann'' ''auto''" _ admin_session 1] d
    by simp
qed

subsection \<open>Unsubscribe tokens\<close>

lemma verify_issue:
  "0 \<le> max_age \<Longrightarrow> verify sig key (issue sig key addr salt t) salt max_age t = Inr addr"
  by (simp add: verify_def issue_def)

lemma verify_expired:
  "now - t > max_age \<Longrightarrow> verify sig key (issue sig key addr salt t) salt max_age now = Inl ExpiredToken"
  by (simp add: verify_def issue_def)

lemma verify_altered:
  "sg \<noteq> signature (issue sig key addr salt t) \<Longrightarrow>
   verify sig key ((issue sig key addr salt t)\<lparr>signature := sg\<rparr>) salt max_age now = Inl InvalidToken"
  by (simp add: verify_def issue_def)

text \<open>
  C3: the token issued for an address under the salt \<open>unsubscribe\<close> verifies back to that
  address at the time of issue (elapsed time 0) against the maximum age of the route,
  31536000 seconds; verified more than 31536000 seconds after its issue it fails
  (\<open>ExpiredToken\<close>); and with any other signature in place of its own it fails
  (\<open>InvalidToken\<close>). In the routes, when their serializer is this codec: the token that
  \<open>send_campaign\<close> puts in a link (\<open>dumps\<close> with the salt \<open>unsubscribe\<close>) makes \<open>unsubscribe\<close>,
  run at the time of issue, set the status of the row of that address to \<open>unsubscribed\<close>;
  run more than a year later, or with an altered signature, \<open>unsubscribe\<close> answers
  \<open>Invalid or expired unsubscribe link.\<close> and changes no row.
\<close>

theorem unsubscribe_token_lifecycle:
  "verify sig key (issue sig key addr ''unsubscribe'' t) ''unsubscribe'' 31536000 t = Inr addr
   \<and> (now - t > 31536000 \<longrightarrow>
        verify sig key (issue sig key addr ''unsubscribe'' t) ''unsubscribe'' 31536000 now
          = Inl ExpiredToken)
   \<and> (sg \<noteq> signature (issue sig key addr ''unsubscribe'' t) \<longrightarrow>
        verify sig key ((issue sig key addr ''unsubscribe'' t)\<lparr>signature := sg\<rparr>)
          ''unsubscribe'' 31536000 now = Inl InvalidToken)
   \<and> (uses_codec sig key env \<and> dumps env addr ''unsubscribe'' t = Inr tok \<longrightarrow>
        (clock env (ticks st) = t \<and> first (filter_by_email addr (subscribers st)) = Some s \<longrightarrow>
           unsubscribe env tok st =
             (update_subscriber (sub_id s) (\<lambda>r. r\<lparr>status := Some ''unsubscribed''\<rparr>)
                (st\<lparr>ticks := Suc (ticks st)\<rparr>),
              Redirect ''/'' ''You have been successfully unsubscribed.'' ''success''))
      \<and> (clock env (ticks st) - t > 31536000 \<longrightarrow>
           unsubscribe env tok st =
             (st\<lparr>ticks := Suc (ticks st)\<rparr>,
              Redirect ''/'' ''Invalid or expired unsubscribe link.'' ''error''))
      \<and> (sg \<noteq> signature tok \<longrightarrow>
           unsubscribe env (tok\<lparr>signature := sg\<rparr>) st =
             (st\<lparr>ticks := Suc (ticks st)\<rparr>,
              Redirect ''/'' ''Invalid or expired unsubscribe link.'' ''error'')))"
proof (intro conjI impI)
  show "verify sig key (issue sig key addr ''unsubscribe'' t) ''unsubscribe'' 31536000 t = Inr addr"
    by (rule verify_issue) simp
next
  assume "now - t > 31536000"
  then show "verify sig key (issue sig key addr ''unsubscribe'' t) ''unsubscribe'' 31536000 now
          = Inl ExpiredToken"
    by (rule verify_expired)
next
  assume "sg \<noteq> signature (issue sig key addr ''unsubscribe'' t)"
  then show "verify sig key ((issue sig key addr ''unsubscribe'' t)\<lparr>signature := sg\<rparr>)
          ''unsubscribe'' 31536000 now = Inl InvalidToken"
    by (rule verify_altered)
next
  assume env: "uses_codec sig key env \<and> dumps env addr ''unsubscribe'' t = Inr tok"
  then have tok: "tok = issue sig key addr ''unsubscribe'' t"
    and loads: "loads env = verify sig key"
    by (auto simp: uses_codec_def)
  {
    assume "clock env (ticks st) = t \<and> first (filter_by_email addr (subscribers st)) = Some s"
    then show "unsubscribe env tok st =
             (update_subscriber (sub_id s) (\<lambda>r. r\<lparr>status := Some ''unsubscribed''\<rparr>)
                (st\<lparr>ticks := Suc (ticks st)\<rparr>),
              Redirect ''/'' ''You have been successfully unsubscribed.'' ''success'')"
      using verify_issue [of 31536000 sig key addr "''unsubscribe''" t]
      by (simp add: unsubscribe_def read_clock_def loads tok)
  next
    assume "clock env (ticks st) - t > 31536000"
    then show "unsubscribe env tok st =
             (st\<lparr>ticks := Suc (ticks st)\<rparr>,
              Redirect ''/'' ''Invalid or expired unsubscribe link.'' ''error'')"
      using verify_expired [of 31536000 "clock env (ticks st)" t sig key addr "''unsubscribe''"]
      by (simp add: unsubscribe_def read_clock_def loads tok)
  next
    assume "sg \<noteq> signature tok"
    then show "unsubscribe env (tok\<lparr>signature := sg\<rparr>) st =
             (st\<lparr>ticks := Suc (ticks st)\<rparr>,
              Redirect ''/'' ''Invalid or expired unsubscribe link.'' ''error'')"
      using verify_altered [of sg sig key addr "''unsubscribe''" t 31536000 "clock env (ticks st)"]
      by (simp add: unsubscribe_def read_clock_def loads tok)
  }
qed

theorem unsubscribe_token_lifecycle_witness:
  "uses_codec demo_mac ''k'' demo_env
   \<and> dumps demo_env ''ann@gmail.com'' ''unsubscribe'' 1000
       = Inr (issue demo_mac ''k'' ''ann@gmail.com'' ''unsubscribe'' 1000)
   \<and> clock demo_env (ticks demo_state) = 1000
   \<and> first (filter_by_email ''ann@gmail.com'' (subscribers demo_state))
       = Some (demo_subscriber 1 ''ann@gmail.com'' ''active'')
   \<and> clock demo_env (ticks (demo_state\<lparr>ticks := 31536001\<rparr>)) - 1000 > 31536000
   \<and> ''forged'' \<noteq> signature (issue demo_mac ''k'' ''ann@gmail.com'' ''unsubscribe'' 1000)
   \<and> verify demo_mac ''k'' (issue demo_mac ''k'' ''ann@gmail.com'' ''unsubscribe'' 1000)
        ''unsubscribe'' 31536000 1000 = Inr ''ann@gmail.com''
   \<and> verify demo_mac ''k'' (issue demo_mac ''k'' ''ann@gmail.com'' ''unsubscribe'' 1000)
        ''unsubscribe'' 31536000 31537001 = Inl ExpiredToken
   \<and> verify demo_mac ''k''
        ((issue demo_mac ''k'' ''ann@gmail.com'' ''unsubscribe'' 1000)\<lparr>signature := ''forged''\<rparr>)
        ''unsubscribe'' 31536000 31537001 = Inl InvalidToken
   \<and> unsubscribe demo_env (issue demo_mac ''k'' ''ann@gmail.com'' ''unsubscribe'' 1000) demo_state
       = (update_subscriber 1 (\<lambda>r. r\<lparr>status := Some ''unsubscribed''\<rparr>)
            (demo_state\<lparr>ticks := Suc (ticks demo_state)\<rparr>),
          Redirect ''/'' ''You have been successfully unsubscribed.'' ''success'')
   \<and> snd (unsubscribe demo_env (issue demo_mac ''k'' ''ann@gmail.com'' ''unsubscribe'' 1000)
        (demo_state\<lparr>ticks := 31536001\<rparr>))
       = Redirect ''/'' ''Invalid or expired unsubscribe link.'' ''error''
   \<and> subscribers (fst (unsubscribe demo_env
        (issue demo_mac ''k'' ''ann@gmail.com'' ''unsubscribe'' 1000)
        (demo_state\<lparr>ticks := 31536001\<rparr>))) = subscribers demo_state
   \<and> unsubscribe demo_env
        ((issue demo_mac ''k'' ''ann@gmail.com'' ''unsubscribe'' 1000)\<lparr>signature := ''forged''\<rparr>)
        demo_state
       = (demo_state\<lparr>ticks := Suc (ticks demo_state)\<rparr>,
          Redirect ''/'' ''Invalid or expired unsubscribe link.'' ''error'')"
proof -
  let ?tok = "issue demo_mac ''k'' ''ann@gmail.com'' ''unsubscribe'' 1000"
  let ?ann = "demo_subscriber 1 ''ann@gmail.com'' ''active''"
  let ?late = "demo_state\<lparr>ticks := 31536001\<rparr>"
  have ser: "uses_codec demo_mac ''k'' demo_env"
    by (simp add: uses_codec_def demo_env_def)
  have issued: "dumps demo_env ''ann@gmail.com'' ''unsubscribe'' 1000 = Inr ?tok"
    by (simp add: demo_env_def)
  have now0: "clock demo_env (ticks demo_state) = 1000"
    by (simp add: demo_env_def demo_state_def)
  have found: "first (filter_by_email ''ann@gmail.com'' (subscribers demo_state)) = Some ?ann"
    by (simp add: filter_by_email_def demo_state_def demo_subscriber_def first_def)
  have late: "clock demo_env (ticks ?late) - 1000 > 31536000"
    by (simp add: demo_env_def)
  have late': "(31537001::int) - 1000 > 31536000"
    by simp
  have forged: "''forged'' \<noteq> signature ?tok"
    by (simp add: issue_def demo_mac_def)
  have ann: "sub_id ?ann = 1"
    by (simp add: demo_subscriber_def)
  note inst = unsubscribe_token_lifecycle [where sig = demo_mac and key = "''k''"
      and addr = "''ann@gmail.com''" and t = 1000 and sg = "''forged''" and env = demo_env
      and tok = ?tok and now = 31537001]
  have codec: "verify demo_mac ''k'' ?tok ''unsubscribe'' 31536000 1000 = Inr ''ann@gmail.com''
      \<and> verify demo_mac ''k'' ?tok ''unsubscribe'' 31536000 31537001 = Inl ExpiredToken
      \<and> verify demo_mac ''k'' (?tok\<lparr>signature := ''forged''\<rparr>) ''unsubscribe'' 31536000 31537001
          = Inl InvalidToken"
    using inst [where st = demo_state and s = ?ann] late' forged by blast
  have fresh: "unsubscribe demo_env ?tok demo_state
       = (update_subscriber (sub_id ?ann) (\<lambda>r. r\<lparr>status := Some ''unsubscribed''\<rparr>)
            (demo_state\<lparr>ticks := Suc (ticks demo_state)\<rparr>),
          Redirect ''/'' ''You have been successfully unsubscribed.'' ''success'')"
    using inst [where st = demo_state and s = ?ann] ser issued now0 found by blast
  have altered: "unsubscribe demo_env (?tok\<lparr>signature := ''forged''\<rparr>) demo_state
       = (demo_state\<lparr>ticks := Suc (ticks demo_state)\<rparr>,
          Redirect ''/'' ''Invalid or expired unsubscribe link.'' ''error'')"
    using inst [where st = demo_state and s = ?ann] ser issued forged by blast
  have expired: "unsubscribe demo_env ?tok ?late
       = (?late\<lparr>ticks := Suc (ticks ?late)\<rparr>,
          Redirect ''/'' ''Invalid or expired unsubscribe link.'' ''error'')"
    using inst [where st = ?late and s = ?ann] ser issued late by blast
  have expired': "snd (unsubscribe demo_env ?tok ?late)
         = Redirect ''/'' ''Invalid or expired unsubscribe link.'' ''error''
       \<and> subscribers (fst (unsubscribe demo_env ?tok ?late)) = subscribers demo_state"
    unfolding expired by simp
  from ser issued now0 found late forged codec fresh [unfolded ann] expired' altered
  show ?thesis
    by blast
qed

end
